theory Spec2Isabelle
  imports Main "HOL-Library.AList"
begin

section \<open>Strings and word characters\<close>

text \<open>
  A Python \<open>str\<close> is a sequence of code points. The model uses \<^typ>\<open>string\<close> and reads
  each \<^typ>\<open>char\<close> as the code point of the same number, so it covers the expressions and
  variable names whose code points are below 256.

  \<open>is_word_char\<close> is the class \<^verbatim>\<open>\w\<close> of the \<^verbatim>\<open>re\<close> module for \<open>str\<close> patterns: the ASCII
  letters and digits, the underscore, and the alphanumeric code points of the range
  128 to 255.
\<close>

definition is_word_char :: "char \<Rightarrow> bool" where
  "is_word_char c =
     (let n = (of_char c :: nat) in
        (48 \<le> n \<and> n \<le> 57) \<or> (65 \<le> n \<and> n \<le> 90) \<or> n = 95 \<or> (97 \<le> n \<and> n \<le> 122) \<or>
        n = 170 \<or> n = 178 \<or> n = 179 \<or> n = 181 \<or> n = 185 \<or> n = 186 \<or>
        (188 \<le> n \<and> n \<le> 190) \<or> (192 \<le> n \<and> n \<le> 214) \<or> (216 \<le> n \<and> n \<le> 246) \<or>
        248 \<le> n)"

text \<open>
  The assertion \<^verbatim>\<open>\b\<close> at a position: the character before the position (\<open>None\<close> at the
  start of the string) and the character at the position (the head of the rest, if any)
  differ in being word characters.
\<close>

definition word_before :: "char option \<Rightarrow> bool" where
  "word_before prev = (case prev of None \<Rightarrow> False | Some c \<Rightarrow> is_word_char c)"

definition word_at :: "string \<Rightarrow> bool" where
  "word_at rest = (case rest of [] \<Rightarrow> False | c # _ \<Rightarrow> is_word_char c)"

definition at_boundary :: "char option \<Rightarrow> string \<Rightarrow> bool" where
  "at_boundary prev rest = (word_before prev \<noteq> word_at rest)"

section \<open>The substitution pattern\<close>

text \<open>
  \<^verbatim>\<open>re.compile(r"\b(" + "|".join(re.escape(key) for key in variables.keys()) + r")\b")\<close>

  Every alternative is an escaped key and matches that key literally. Joining no keys
  gives the empty string, so the group of an empty mapping is \<^verbatim>\<open>()\<close>: one alternative,
  which matches the empty string.
\<close>

definition alternatives :: "string list \<Rightarrow> string list" where
  "alternatives keys = (if keys = [] then [[]] else keys)"

text \<open>
  The character before the position a match of \<open>k\<close> ends at.
\<close>

definition prev_after :: "char option \<Rightarrow> string \<Rightarrow> char option" where
  "prev_after prev k = (if k = [] then prev else Some (last k))"

text \<open>
  A match attempt at one position. The pattern asks for a boundary, then tries the
  alternatives in the order of the keys, each followed by the closing boundary; the first
  alternative that gets through is the match. With \<open>must_advance\<close> (the search right
  after an empty match) a match that ends where the search starts is refused.
\<close>

definition match_here :: "string list \<Rightarrow> char option \<Rightarrow> string \<Rightarrow> bool \<Rightarrow> string option" where
  "match_here alts prev rest must_advance =
     (if at_boundary prev rest
      then find (\<lambda>k. take (length k) rest = k \<and>
                     at_boundary (prev_after prev k) (drop (length k) rest) \<and>
                     \<not> (must_advance \<and> k = [])) alts
      else None)"

text \<open>
  \<^verbatim>\<open>pattern.sub(replace_var, expression)\<close> finds the leftmost matches one after the other,
  each search starting where the previous match ended. \<open>scan\<close> returns the expression cut
  into the characters that are copied and the matches that are replaced.
\<close>

datatype piece = Keep char | Match string

function scan :: "string list \<Rightarrow> char option \<Rightarrow> string \<Rightarrow> bool \<Rightarrow> piece list" where
  "scan alts prev rest must_advance =
     (case match_here alts prev rest must_advance of
        Some k \<Rightarrow> Match k # scan alts (prev_after prev k) (drop (length k) rest) (k = [])
      | None \<Rightarrow>
         (case rest of
            [] \<Rightarrow> []
          | c # cs \<Rightarrow> Keep c # scan alts (Some c) cs False))"
  by pat_completeness auto

lemma match_here_Some:
  assumes "match_here alts prev rest adv = Some k"
  shows "k \<in> set alts" and "take (length k) rest = k"
    and "at_boundary prev rest"
    and "at_boundary (prev_after prev k) (drop (length k) rest)"
    and "\<not> (adv \<and> k = [])"
proof -
  from assms have b: "at_boundary prev rest"
    and f: "find (\<lambda>k. take (length k) rest = k \<and>
                     at_boundary (prev_after prev k) (drop (length k) rest) \<and>
                     \<not> (adv \<and> k = [])) alts = Some k"
    by (auto simp: match_here_def split: if_splits)
  from f obtain i where "i < length alts" and "alts ! i = k"
    and p: "take (length k) rest = k \<and>
            at_boundary (prev_after prev k) (drop (length k) rest) \<and> \<not> (adv \<and> k = [])"
    by (auto simp: find_Some_iff)
  then show "k \<in> set alts" by auto
  from p show "take (length k) rest = k"
    and "at_boundary (prev_after prev k) (drop (length k) rest)"
    and "\<not> (adv \<and> k = [])" by simp_all
  from b show "at_boundary prev rest" .
qed

lemma match_here_length:
  assumes "match_here alts prev rest adv = Some k"
  shows "length k \<le> length rest"
proof -
  have "take (length k) rest = k" using assms by (rule match_here_Some)
  then have "length (take (length k) rest) = length k" by simp
  then show ?thesis by simp
qed

termination scan
proof (relation "measure (\<lambda>(alts, prev, rest, adv). 2 * length rest + (if adv then 0 else 1))")
  show "wf (measure (\<lambda>(alts, prev, rest, adv). 2 * length rest + (if adv then 0 else 1)))"
    by simp
next
  fix alts :: "string list" and prev rest adv k
  assume m: "match_here alts prev rest adv = Some k"
  have len: "length k \<le> length rest" using m by (rule match_here_length)
  have adv: "\<not> (adv \<and> k = [])" using m by (rule match_here_Some)
  show "((alts, prev_after prev k, drop (length k) rest, k = []), alts, prev, rest, adv)
        \<in> measure (\<lambda>(alts, prev, rest, adv). 2 * length rest + (if adv then 0 else 1))"
  proof (cases "k = []")
    case True
    with adv show ?thesis by simp
  next
    case False
    then have "0 < length k" by simp
    with len have "2 * (length rest - length k) + 1 < 2 * length rest" by arith
    with False show ?thesis by simp
  qed
next
  fix alts :: "string list" and prev :: "char option" and rest :: string and adv :: bool
    and c cs
  assume "rest = c # cs"
  then show "((alts, Some c, cs, False), alts, prev, rest, adv)
        \<in> measure (\<lambda>(alts, prev, rest, adv). 2 * length rest + (if adv then 0 else 1))"
    by simp
qed

declare scan.simps [simp del]

text \<open>
  The callback is called on each match from left to right and its result is spliced in; an
  exception of the callback ends the substitution at that match. The search itself never
  depends on what the callback returned.
\<close>

text \<open>
  What can leave \<open>restricted_eval\<close> instead of a value: \<open>SystemExit\<close> from \<open>sys.exit()\<close>,
  and the \<open>KeyError\<close> of a failed lookup with its key. \<open>Outside_model\<close> is not an
  exception: it marks a call about which the model says nothing.
\<close>

datatype error = SystemExit | KeyError string | Outside_model

fun emit :: "(string \<Rightarrow> error + string) \<Rightarrow> piece list \<Rightarrow> error + string" where
  "emit repl [] = Inr []"
| "emit repl (Keep c # ps) =
     (case emit repl ps of Inl e \<Rightarrow> Inl e | Inr out \<Rightarrow> Inr (c # out))"
| "emit repl (Match k # ps) =
     (case repl k of
        Inl e \<Rightarrow> Inl e
      | Inr r \<Rightarrow> (case emit repl ps of Inl e \<Rightarrow> Inl e | Inr out \<Rightarrow> Inr (r @ out)))"

definition pattern_sub :: "string list \<Rightarrow> (string \<Rightarrow> error + string) \<Rightarrow> string \<Rightarrow> error + string" where
  "pattern_sub keys repl expression = emit repl (scan (alternatives keys) None expression False)"

section \<open>Python values\<close>

text \<open>
  The values the model knows: \<open>None\<close>, the unbounded integers, strings, the built-in
  functions by name, and the floats with an integral value: \<open>PFloat n\<close> is the float
  \<open>n.0\<close> (so \<open>400.0\<close> is \<open>PFloat 400\<close> and \<open>PFloat 0\<close> is \<open>0.0\<close>). Below \<open>2 ^ 53\<close> in
  magnitude these floats are exact; every other float (a fraction, \<open>-0.0\<close>, \<open>inf\<close>, \<open>nan\<close>)
  is outside the model.
\<close>

datatype pyval = PNone | PInt int | PFloat int | PStr string | PBuiltin string

type_synonym pydict = "(string \<times> pyval) list"

text \<open>
  A dictionary is the list of its items in insertion order. \<open>d[k] = v\<close> is
  \<^const>\<open>AList.update\<close>: the value of a key that is present is replaced in place, a new
  key goes to the end. \<open>d.update(other)\<close> stores the items of \<open>other\<close> one by one.
\<close>

definition dict_update :: "pydict \<Rightarrow> pydict \<Rightarrow> pydict" where
  "dict_update d other = fold (\<lambda>(k, v) acc. AList.update k v acc) other d"

subsection \<open>\<open>str\<close> of a value\<close>

definition digit_char :: "nat \<Rightarrow> char" where
  "digit_char d = char_of (48 + d)"

fun decimal :: "nat \<Rightarrow> string" where
  "decimal n = (if n < 10 then [digit_char n] else decimal (n div 10) @ [digit_char (n mod 10)])"

declare decimal.simps [simp del]

definition str_int :: "int \<Rightarrow> string" where
  "str_int i = (if i < 0 then CHR ''-'' # decimal (nat (- i)) else decimal (nat i))"

text \<open>
  \<open>py_str v\<close> is \<open>str(v)\<close>, or \<open>None\<close> where the model does not say what \<open>str\<close> gives: an
  integer of more than 4300 digits (the conversion limit of recent interpreters), and a
  float of magnitude \<open>2 ^ 53\<close> or more.
\<close>

fun py_str :: "pyval \<Rightarrow> string option" where
  "py_str PNone = Some ''None''"
| "py_str (PInt i) = (if length (decimal (nat \<bar>i\<bar>)) \<le> 4300 then Some (str_int i) else None)"
| "py_str (PFloat n) = (if \<bar>n\<bar> < 2 ^ 53 then Some (str_int n @ ''.0'') else None)"
| "py_str (PStr s) = Some s"
| "py_str (PBuiltin f) = Some (''<built-in function '' @ f @ ''>'')"

section \<open>The evaluator\<close>

text \<open>
  \<open>eval(expression, safe_env, {})\<close> is the interpreter's own. It is a parameter \<open>ev\<close> of the
  model: a function of the global names and the text that returns a value, raises an
  exception of class \<open>Exception\<close> (what \<open>except Exception\<close> catches), or is left open by
  the model.
\<close>

datatype pyexn = Exn (exn_class: string) (exn_str: string)

datatype eval_result = Value pyval | Raised pyexn | Unmodelled

type_synonym evaluator = "pydict \<Rightarrow> string \<Rightarrow> eval_result"

text \<open>What the process does besides returning: lines printed, and \<open>pygame.quit()\<close>.\<close>

datatype event = Print string | Pygame_quit

subsection \<open>\<open>restricted_eval\<close>\<close>

definition replace_var :: "pydict \<Rightarrow> string \<Rightarrow> error + string" where
  "replace_var variables group0 =
     (case map_of variables group0 of
        None \<Rightarrow> Inl (KeyError group0)
      | Some v \<Rightarrow> (case py_str v of None \<Rightarrow> Inl Outside_model | Some s \<Rightarrow> Inr s))"

definition starts_with :: "string \<Rightarrow> string \<Rightarrow> bool" where
  "starts_with p s = (take (length p) s = p)"

text \<open>\<open>math_dict\<close> stands for \<open>math.__dict__\<close>, the names of the interpreter's math module.\<close>

definition allowed_names :: "pydict \<Rightarrow> pydict" where
  "allowed_names math_dict =
     dict_update
       [(''abs'', PBuiltin ''abs''), (''round'', PBuiltin ''round''),
        (''min'', PBuiltin ''min''), (''max'', PBuiltin ''max'')]
       (filter (\<lambda>(k, v). \<not> starts_with ''__'' k) math_dict)"

definition safe_env :: "pydict \<Rightarrow> pydict" where
  "safe_env math_dict = dict_update [(''__builtins__'', PNone)] (allowed_names math_dict)"

definition diagnostic :: "pyexn \<Rightarrow> string \<Rightarrow> string" where
  "diagnostic e expression =
     ''Encountered '' @ [CHR 0x27] @ exn_str e @ [CHR 0x27] @
     '' error in evaluating expression : '' @ expression"

text \<open>
  The result of a call is the value returned or the exception that leaves the function,
  the \<open>variables\<close> dictionary as the call leaves it, and the events so far.
\<close>

definition restricted_eval ::
  "evaluator \<Rightarrow> pydict \<Rightarrow> string \<Rightarrow> pydict \<Rightarrow> event list \<Rightarrow> (error + pyval) \<times> pydict \<times> event list"
where
  "restricted_eval ev math_dict expression variables out =
     (case pattern_sub (map fst variables) (replace_var variables) expression of
        Inl e \<Rightarrow> (Inl e, variables, out)
      | Inr expression' \<Rightarrow>
         (case ev (safe_env math_dict) expression' of
            Value result \<Rightarrow> (Inr result, variables, out)
          | Raised e \<Rightarrow>
              (Inl SystemExit, variables, out @ [Print (diagnostic e expression'), Pygame_quit])
          | Unmodelled \<Rightarrow> (Inl Outside_model, variables, out)))"

subsection \<open>\<open>get_scale_and_position_as_function_of_pygame_surface_dimensions\<close>\<close>

record surface =
  get_width :: int
  get_height :: int

definition get_scale_and_position_as_function_of_pygame_surface_dimensions ::
  "evaluator \<Rightarrow> pydict \<Rightarrow> surface \<Rightarrow> string \<Rightarrow> string \<Rightarrow> string \<Rightarrow> string \<Rightarrow> string \<Rightarrow> event list \<Rightarrow>
     (error + pyval \<times> pyval \<times> pyval \<times> pyval) \<times> event list"
where
  "get_scale_and_position_as_function_of_pygame_surface_dimensions ev math_dict surface
       x_pos_function y_pos_function x_scale_function y_scale_function surface_name out =
     (let surface_width = get_width surface;
          surface_height = get_height surface;
          variables = AList.update (surface_name @ ''_height'') (PInt surface_height)
                        [(surface_name @ ''_width'', PInt surface_width)]
      in case restricted_eval ev math_dict x_scale_function variables out of
           (Inl e, variables, out) \<Rightarrow> (Inl e, out)
         | (Inr x_scale, variables, out) \<Rightarrow>
            (case restricted_eval ev math_dict y_scale_function variables out of
               (Inl e, variables, out) \<Rightarrow> (Inl e, out)
             | (Inr y_scale, variables, out) \<Rightarrow>
                (let variables = AList.update ''x_scale'' x_scale variables;
                     variables = AList.update ''y_scale'' y_scale variables
                 in case restricted_eval ev math_dict x_pos_function variables out of
                      (Inl e, variables, out) \<Rightarrow> (Inl e, out)
                    | (Inr x, variables, out) \<Rightarrow>
                       (case restricted_eval ev math_dict y_pos_function variables out of
                          (Inl e, variables, out) \<Rightarrow> (Inl e, out)
                        | (Inr y, variables, out) \<Rightarrow> (Inr (x, y, x_scale, y_scale), out)))))"

section \<open>A fragment of the interpreter's \<open>eval\<close>\<close>

text \<open>
  \<open>py_eval\<close> models \<open>eval\<close> on the arithmetic expressions built from decimal integer
  literals, float literals with a zero fraction, names, \<open>+ - * / **\<close>, unary signs and
  parentheses, of at most 64 tokens. On every other text, and wherever the result would
  be a float that is not an exact integer, it answers \<open>Unmodelled\<close>: the model then says
  nothing about the call.
\<close>

datatype token = NUMBER pyval | NAME string | PLUS | MINUS | STAR | SLASH | DOUBLESTAR | LPAR | RPAR

definition is_digit :: "char \<Rightarrow> bool" where
  "is_digit c = (let n = (of_char c :: nat) in 48 \<le> n \<and> n \<le> 57)"

definition is_name_start :: "char \<Rightarrow> bool" where
  "is_name_start c =
     (let n = (of_char c :: nat) in (65 \<le> n \<and> n \<le> 90) \<or> n = 95 \<or> (97 \<le> n \<and> n \<le> 122))"

definition is_name_char :: "char \<Rightarrow> bool" where
  "is_name_char c = (is_name_start c \<or> is_digit c)"

definition nat_of_digits :: "string \<Rightarrow> nat" where
  "nat_of_digits ds = foldl (\<lambda>acc c. 10 * acc + (of_char c - 48)) 0 ds"

text \<open>The keywords, and \<open>__debug__\<close>, which the compiler replaces by a constant.\<close>

definition py_keywords :: "string list" where
  "py_keywords =
     [''False'', ''None'', ''True'', ''and'', ''as'', ''assert'', ''async'', ''await'',
      ''break'', ''class'', ''continue'', ''def'', ''del'', ''elif'', ''else'', ''except'',
      ''finally'', ''for'', ''from'', ''global'', ''if'', ''import'', ''in'', ''is'',
      ''lambda'', ''nonlocal'', ''not'', ''or'', ''pass'', ''raise'', ''return'', ''try'',
      ''while'', ''with'', ''yield'', ''__debug__'']"

text \<open>
  A number: decimal digits without a leading zero, then nothing that would continue the
  literal (a letter, an underscore, an exponent), or a point and zeros only.
\<close>

definition lex_number :: "string \<Rightarrow> (token \<times> string) option" where
  "lex_number s =
     (let ds = takeWhile is_digit s; r = dropWhile is_digit s in
      if ds = [] \<or> (hd ds = CHR ''0'' \<and> 1 < length ds) then None
      else
        (case r of
           [] \<Rightarrow> if length ds \<le> 4300 then Some (NUMBER (PInt (int (nat_of_digits ds))), r) else None
         | c # r' \<Rightarrow>
            if c = CHR ''.'' then
              (let fs = takeWhile is_digit r'; r'' = dropWhile is_digit r' in
               if length ds \<le> 15 \<and> list_all (\<lambda>d. d = CHR ''0'') fs \<and>
                  (case r'' of [] \<Rightarrow> True | d # _ \<Rightarrow> \<not> is_word_char d \<and> d \<noteq> CHR ''.'')
               then Some (NUMBER (PFloat (int (nat_of_digits ds))), r'') else None)
            else if is_word_char c \<or> 4300 < length ds then None
            else Some (NUMBER (PInt (int (nat_of_digits ds))), r)))"

definition lex_name :: "string \<Rightarrow> (token \<times> string) option" where
  "lex_name s =
     (let w = takeWhile is_name_char s; r = dropWhile is_name_char s in
      if w = [] \<or> List.member py_keywords w then None else Some (NAME w, r))"

lemma lex_number_shorter:
  assumes "lex_number s = Some (t, r)"
  shows "length r < length s"
proof -
  let ?ds = "takeWhile is_digit s" and ?r = "dropWhile is_digit s"
  from assms have ne: "?ds \<noteq> []"
    by (auto simp: lex_number_def Let_def split: if_splits)
  have s: "s = ?ds @ ?r" by simp
  have "length s = length ?ds + length ?r" by (subst s) (simp only: length_append)
  with ne have lt: "length ?r < length s" by simp
  have le: "length (dropWhile is_digit (tl ?r)) \<le> length ?r"
    by (rule order_trans [OF length_dropWhile_le]) simp
  from assms have "r = ?r \<or> r = dropWhile is_digit (tl ?r)"
    by (auto simp: lex_number_def Let_def split: if_splits list.splits)
  with lt le show ?thesis by auto
qed

lemma lex_name_shorter:
  assumes "lex_name s = Some (t, r)"
  shows "length r < length s"
proof -
  let ?w = "takeWhile is_name_char s" and ?r = "dropWhile is_name_char s"
  from assms have ne: "?w \<noteq> []" and r: "r = ?r"
    by (auto simp: lex_name_def Let_def split: if_splits)
  have s: "s = ?w @ ?r" by simp
  have "length s = length ?w + length ?r" by (subst s) (simp only: length_append)
  with ne r show ?thesis by simp
qed

function lex :: "string \<Rightarrow> token list option" where
  "lex [] = Some []"
| "lex (c # cs) =
     (if c = CHR '' '' then lex cs
      else if is_digit c then
        (case lex_number (c # cs) of None \<Rightarrow> None | Some (t, r) \<Rightarrow> map_option ((#) t) (lex r))
      else if is_name_start c then
        (case lex_name (c # cs) of None \<Rightarrow> None | Some (t, r) \<Rightarrow> map_option ((#) t) (lex r))
      else if c = CHR ''+'' then map_option ((#) PLUS) (lex cs)
      else if c = CHR ''-'' then map_option ((#) MINUS) (lex cs)
      else if c = CHR ''('' then map_option ((#) LPAR) (lex cs)
      else if c = CHR '')'' then map_option ((#) RPAR) (lex cs)
      else if c = CHR ''*'' then
        (case cs of
           [] \<Rightarrow> Some [STAR]
         | d # cs' \<Rightarrow>
            if d = CHR ''*'' then map_option ((#) DOUBLESTAR) (lex cs')
            else map_option ((#) STAR) (lex cs))
      else if c = CHR ''/'' then
        (case cs of
           [] \<Rightarrow> Some [SLASH]
         | d # cs' \<Rightarrow> if d = CHR ''/'' then None else map_option ((#) SLASH) (lex cs))
      else None)"
  by pat_completeness auto

termination lex
proof (relation "measure length")
  show "wf (measure length)" by simp
next
  fix c cs x t r
  assume "lex_number (c # cs) = Some x" and "(t, r) = x"
  then have "lex_number (c # cs) = Some (t, r)" by simp
  then have "length r < length (c # cs)" by (rule lex_number_shorter)
  then show "(r, c # cs) \<in> measure length" by simp
next
  fix c cs x t r
  assume "lex_name (c # cs) = Some x" and "(t, r) = x"
  then have "lex_name (c # cs) = Some (t, r)" by simp
  then have "length r < length (c # cs)" by (rule lex_name_shorter)
  then show "(r, c # cs) \<in> measure length" by simp
qed simp_all

declare lex.simps [simp del]

text \<open>
  The grammar of these tokens, as the language reference gives it:
  \<^verbatim>\<open>
  arith:  term (('+' | '-') term)*
  term:   factor (('*' | '/') factor)*
  factor: ('+' | '-') factor | power
  power:  atom ['**' factor]
  atom:   NUMBER | NAME | '(' arith ')'
  \<close>
  The first argument of the parsing functions bounds the depth of the descent; \<open>parse\<close>
  gives enough of it for 64 tokens and answers \<open>None\<close> otherwise.
\<close>

datatype binop = Add | Sub | Mul | Div | Pow

datatype expr = Const pyval | Var string | UPlus expr | UMinus expr | Bin binop expr expr

definition starts :: "token \<Rightarrow> token list \<Rightarrow> bool" where
  "starts t ts = (case ts of [] \<Rightarrow> False | u # _ \<Rightarrow> u = t)"

definition atom_token :: "token \<Rightarrow> expr option" where
  "atom_token t = (case t of NUMBER v \<Rightarrow> Some (Const v) | NAME x \<Rightarrow> Some (Var x) | _ \<Rightarrow> None)"

text \<open>
  The nonterminal being parsed; the two loops carry the operand parsed so far.
\<close>

datatype level = Arith | Arith_rest expr | Term | Term_rest expr | Factor | Power | Atom

fun parse_level :: "nat \<Rightarrow> level \<Rightarrow> token list \<Rightarrow> (expr \<times> token list) option" where
  "parse_level 0 lv ts = None"
| "parse_level (Suc n) Arith ts =
     (case parse_level n Term ts of
        None \<Rightarrow> None
      | Some (l, r) \<Rightarrow> parse_level n (Arith_rest l) r)"
| "parse_level (Suc n) (Arith_rest l) ts =
     (if starts PLUS ts then
        (case parse_level n Term (tl ts) of
           None \<Rightarrow> None
         | Some (e, r) \<Rightarrow> parse_level n (Arith_rest (Bin Add l e)) r)
      else if starts MINUS ts then
        (case parse_level n Term (tl ts) of
           None \<Rightarrow> None
         | Some (e, r) \<Rightarrow> parse_level n (Arith_rest (Bin Sub l e)) r)
      else Some (l, ts))"
| "parse_level (Suc n) Term ts =
     (case parse_level n Factor ts of
        None \<Rightarrow> None
      | Some (l, r) \<Rightarrow> parse_level n (Term_rest l) r)"
| "parse_level (Suc n) (Term_rest l) ts =
     (if starts STAR ts then
        (case parse_level n Factor (tl ts) of
           None \<Rightarrow> None
         | Some (e, r) \<Rightarrow> parse_level n (Term_rest (Bin Mul l e)) r)
      else if starts SLASH ts then
        (case parse_level n Factor (tl ts) of
           None \<Rightarrow> None
         | Some (e, r) \<Rightarrow> parse_level n (Term_rest (Bin Div l e)) r)
      else Some (l, ts))"
| "parse_level (Suc n) Factor ts =
     (if starts PLUS ts then
        (case parse_level n Factor (tl ts) of None \<Rightarrow> None | Some (e, r) \<Rightarrow> Some (UPlus e, r))
      else if starts MINUS ts then
        (case parse_level n Factor (tl ts) of None \<Rightarrow> None | Some (e, r) \<Rightarrow> Some (UMinus e, r))
      else parse_level n Power ts)"
| "parse_level (Suc n) Power ts =
     (case parse_level n Atom ts of
        None \<Rightarrow> None
      | Some (b, r) \<Rightarrow>
         if starts DOUBLESTAR r then
           (case parse_level n Factor (tl r) of
              None \<Rightarrow> None
            | Some (e, r') \<Rightarrow> Some (Bin Pow b e, r'))
         else Some (b, r))"
| "parse_level (Suc n) Atom ts =
     (case ts of
        [] \<Rightarrow> None
      | t # r \<Rightarrow>
         (case atom_token t of
            Some e \<Rightarrow> Some (e, r)
          | None \<Rightarrow>
             if t = LPAR then
               (case parse_level n Arith r of
                  None \<Rightarrow> None
                | Some (e, r') \<Rightarrow> if starts RPAR r' then Some (e, tl r') else None)
             else None))"

definition parse :: "token list \<Rightarrow> expr option" where
  "parse ts =
     (if 64 < length ts then None
      else case parse_level (10 * length ts + 10) Arith ts of
             Some (e, []) \<Rightarrow> Some e
           | _ \<Rightarrow> None)"

subsection \<open>Arithmetic\<close>

text \<open>
  Integers are exact. A float operand or result is modelled when it is an integer of
  magnitude below \<open>2 ^ 53\<close>, where the operations of the machine are exact; a zero result
  that the machine signs negative is left out, and so is a quotient that is not an integer.
  Division of integers is true division and gives a float. A power is modelled for a base
  below \<open>2 ^ 64\<close> in magnitude and an exponent from 0 to 64.
\<close>

definition as_float :: "pyval \<Rightarrow> int option" where
  "as_float v =
     (case v of
        PInt i \<Rightarrow> if \<bar>i\<bar> < 2 ^ 53 then Some i else None
      | PFloat n \<Rightarrow> if \<bar>n\<bar> < 2 ^ 53 then Some n else None
      | _ \<Rightarrow> None)"

definition float_result :: "bool \<Rightarrow> int \<Rightarrow> eval_result" where
  "float_result negative_zero r =
     (if \<bar>r\<bar> < 2 ^ 53 \<and> \<not> (r = 0 \<and> negative_zero) then Value (PFloat r) else Unmodelled)"

definition float_binop :: "binop \<Rightarrow> int \<Rightarrow> int \<Rightarrow> eval_result" where
  "float_binop op a b =
     (case op of
        Add \<Rightarrow> float_result False (a + b)
      | Sub \<Rightarrow> float_result False (a - b)
      | Mul \<Rightarrow> float_result (a < 0 \<or> b < 0) (a * b)
      | Div \<Rightarrow> if b \<noteq> 0 \<and> b dvd a then float_result (b < 0) (a div b) else Unmodelled
      | Pow \<Rightarrow> Unmodelled)"

definition int_binop :: "binop \<Rightarrow> int \<Rightarrow> int \<Rightarrow> eval_result" where
  "int_binop op a b =
     (case op of
        Add \<Rightarrow> Value (PInt (a + b))
      | Sub \<Rightarrow> Value (PInt (a - b))
      | Mul \<Rightarrow> Value (PInt (a * b))
      | Div \<Rightarrow>
          if b = 0 then Raised (Exn ''ZeroDivisionError'' ''division by zero'')
          else if b dvd a then float_result (b < 0) (a div b)
          else Unmodelled
      | Pow \<Rightarrow> if \<bar>a\<bar> < 2 ^ 64 \<and> 0 \<le> b \<and> b \<le> 64 then Value (PInt (a ^ nat b)) else Unmodelled)"

definition apply_binop :: "binop \<Rightarrow> pyval \<Rightarrow> pyval \<Rightarrow> eval_result" where
  "apply_binop op x y =
     (case (x, y) of
        (PInt a, PInt b) \<Rightarrow> int_binop op a b
      | _ \<Rightarrow>
         (case (as_float x, as_float y) of
            (Some a, Some b) \<Rightarrow> float_binop op a b
          | _ \<Rightarrow> Unmodelled))"

definition apply_uminus :: "pyval \<Rightarrow> eval_result" where
  "apply_uminus x =
     (case x of
        PInt a \<Rightarrow> Value (PInt (- a))
      | PFloat a \<Rightarrow> if a \<noteq> 0 \<and> \<bar>a\<bar> < 2 ^ 53 then Value (PFloat (- a)) else Unmodelled
      | _ \<Rightarrow> Unmodelled)"

definition apply_uplus :: "pyval \<Rightarrow> eval_result" where
  "apply_uplus x =
     (case x of
        PInt a \<Rightarrow> Value (PInt a)
      | PFloat a \<Rightarrow> if \<bar>a\<bar> < 2 ^ 53 then Value (PFloat a) else Unmodelled
      | _ \<Rightarrow> Unmodelled)"

text \<open>
  A name is looked up in the local names (none), then in the global names \<open>env\<close>, then in
  the built-in names. With \<open>__builtins__\<close> bound to \<open>None\<close> the last step subscripts \<open>None\<close>
  and raises a \<open>TypeError\<close>.
\<close>

definition lookup_name :: "pydict \<Rightarrow> string \<Rightarrow> eval_result" where
  "lookup_name env x =
     (case map_of env x of
        Some v \<Rightarrow> Value v
      | None \<Rightarrow>
         if map_of env ''__builtins__'' = Some PNone
         then Raised (Exn ''TypeError''
                ([CHR 0x27] @ ''NoneType'' @ [CHR 0x27] @ '' object is not subscriptable''))
         else Unmodelled)"

text \<open>Operands are evaluated from left to right; the first that does not give a value decides.\<close>

fun eval_expr :: "pydict \<Rightarrow> expr \<Rightarrow> eval_result" where
  "eval_expr env (Const v) = Value v"
| "eval_expr env (Var x) = lookup_name env x"
| "eval_expr env (UPlus e) =
     (case eval_expr env e of Value v \<Rightarrow> apply_uplus v | r \<Rightarrow> r)"
| "eval_expr env (UMinus e) =
     (case eval_expr env e of Value v \<Rightarrow> apply_uminus v | r \<Rightarrow> r)"
| "eval_expr env (Bin op l r) =
     (case eval_expr env l of
        Value x \<Rightarrow> (case eval_expr env r of Value y \<Rightarrow> apply_binop op x y | res \<Rightarrow> res)
      | res \<Rightarrow> res)"

definition py_eval :: evaluator where
  "py_eval env s =
     (case lex s of
        None \<Rightarrow> Unmodelled
      | Some ts \<Rightarrow> (case parse ts of None \<Rightarrow> Unmodelled | Some e \<Rightarrow> eval_expr env e))"

text \<open>A few items of \<open>math.__dict__\<close>, for the statements about one concrete call.\<close>

definition math_dict_sample :: pydict where
  "math_dict_sample =
     [(''__name__'', PStr ''math''), (''__package__'', PStr []),
      (''sqrt'', PBuiltin ''sqrt''), (''floor'', PBuiltin ''floor''), (''ceil'', PBuiltin ''ceil'')]"

section \<open>Notions used in the statements\<close>

text \<open>
  The matches that \<open>pattern.sub\<close> replaces, each with the index it starts at.
\<close>

fun spans :: "nat \<Rightarrow> piece list \<Rightarrow> (nat \<times> string) list" where
  "spans i [] = []"
| "spans i (Keep c # ps) = spans (Suc i) ps"
| "spans i (Match k # ps) = (i, k) # spans (i + length k) ps"

definition matches :: "string list \<Rightarrow> string \<Rightarrow> (nat \<times> string) list" where
  "matches keys expression = spans 0 (scan (alternatives keys) None expression False)"

text \<open>The character in front of the position that follows the text \<open>pre\<close>.\<close>

definition prev_of :: "string \<Rightarrow> char option" where
  "prev_of pre = (if pre = [] then None else Some (last pre))"

text \<open>\<^verbatim>\<open>\b\<close> at index \<open>i\<close> of a string, as the \<^verbatim>\<open>re\<close> documentation words it.\<close>

definition word_boundary :: "string \<Rightarrow> nat \<Rightarrow> bool" where
  "word_boundary s i =
     ((0 < i \<and> is_word_char (s ! (i - 1))) \<noteq> (i < length s \<and> is_word_char (s ! i)))"







section \<open>Facts about the scan\<close>

lemma scan_Match:
  "match_here alts prev rest adv = Some k \<Longrightarrow>
   scan alts prev rest adv = Match k # scan alts (prev_after prev k) (drop (length k) rest) (k = [])"
  by (subst scan.simps) simp

lemma scan_Keep:
  "match_here alts prev (c # cs) adv = None \<Longrightarrow>
   scan alts prev (c # cs) adv = Keep c # scan alts (Some c) cs False"
  by (subst scan.simps) simp

lemma scan_Nil:
  "match_here alts prev [] adv = None \<Longrightarrow> scan alts prev [] adv = []"
  by (subst scan.simps) simp

lemma match_here_no_boundary:
  "\<not> at_boundary prev rest \<Longrightarrow> match_here alts prev rest adv = None"
  by (simp add: match_here_def)


subsection \<open>An empty mapping\<close>

text \<open>
  With no keys the only alternative is the empty string, which matches at the first word
  boundary: in front of the first word character of the expression.
\<close>

lemma scan_empty_mapping:
  assumes "repl [] = Inl e" and "\<not> word_before prev" and "list_ex is_word_char rest"
  shows "emit repl (scan [[]] prev rest False) = Inl e"
  using assms(2,3)
proof (induction rest arbitrary: prev)
  case Nil
  then show ?case by simp
next
  case (Cons c cs)
  show ?case
  proof (cases "is_word_char c")
    case True
    with Cons.prems have "match_here [[]] prev (c # cs) False = Some []"
      by (simp add: match_here_def at_boundary_def prev_after_def word_at_def)
    then show ?thesis
      using assms(1) by (simp add: scan_Match)
  next
    case False
    with Cons.prems have m: "match_here [[]] prev (c # cs) False = None"
      by (simp add: match_here_no_boundary at_boundary_def word_at_def)
    from False Cons.prems have ex: "list_ex is_word_char cs" by simp
    from False have nb: "\<not> word_before (Some c)" by (simp add: word_before_def)
    have "emit repl (scan [[]] (Some c) cs False) = Inl e"
      using nb ex by (rule Cons.IH)
    with m show ?thesis by (simp add: scan_Keep)
  qed
qed

subsection \<open>Where the matches lie\<close>

lemma prev_of_append: "prev_of (pre @ k) = prev_after (prev_of pre) k"
  by (simp add: prev_of_def prev_after_def)

lemma prev_of_snoc: "prev_of (pre @ [c]) = Some c"
  by (simp add: prev_of_def)

lemma boundary_index: "at_boundary (prev_of pre) rest = word_boundary (pre @ rest) (length pre)"
proof -
  have a: "word_before (prev_of pre) =
      (0 < length pre \<and> is_word_char ((pre @ rest) ! (length pre - 1)))"
    by (cases pre rule: rev_cases) (simp_all add: word_before_def prev_of_def nth_append)
  have b: "word_at rest =
      (length pre < length (pre @ rest) \<and> is_word_char ((pre @ rest) ! length pre))"
    by (cases rest) (simp_all add: word_at_def)
  show ?thesis unfolding at_boundary_def word_boundary_def a b ..
qed

lemma spans_scan:
  assumes "(i, k) \<in> set (spans (length pre) (scan alts (prev_of pre) rest adv))"
  shows "k \<in> set alts \<and> i + length k \<le> length (pre @ rest) \<and>
         take (length k) (drop i (pre @ rest)) = k \<and>
         word_boundary (pre @ rest) i \<and> word_boundary (pre @ rest) (i + length k)"
  using assms
proof (induction alts "prev_of pre" rest adv arbitrary: pre rule: scan.induct)
  case (1 alts rest adv)
  show ?case
  proof (cases "match_here alts (prev_of pre) rest adv")
    case (Some m)
    note mh = match_here_Some [OF Some]
    have rest: "rest = m @ drop (length m) rest"
      using mh(2) by (metis append_take_drop_id)
    have whole: "(pre @ m) @ drop (length m) rest = pre @ rest"
      using rest by simp
    have sc: "scan alts (prev_of pre) rest adv =
        Match m # scan alts (prev_of (pre @ m)) (drop (length m) rest) (m = [])"
      using Some by (simp add: scan_Match prev_of_append)
    from "1.prems" have "(i, k) = (length pre, m) \<or>
        (i, k) \<in> set (spans (length (pre @ m))
                        (scan alts (prev_of (pre @ m)) (drop (length m) rest) (m = [])))"
      by (simp add: sc)
    then show ?thesis
    proof
      assume "(i, k) = (length pre, m)"
      then have i: "i = length pre" and k: "k = m" by simp_all
      have b1: "word_boundary (pre @ rest) (length pre)"
        using mh(3) by (simp add: boundary_index)
      have "word_boundary ((pre @ m) @ drop (length m) rest) (length (pre @ m))"
        using mh(4) by (simp only: boundary_index [symmetric] prev_of_append)
      then have b2: "word_boundary (pre @ rest) (length pre + length m)"
        by (simp only: whole length_append)
      have len: "length m \<le> length rest" using Some by (rule match_here_length)
      show ?thesis using mh(1,2) b1 b2 len by (simp add: i k)
    next
      assume "(i, k) \<in> set (spans (length (pre @ m))
                        (scan alts (prev_of (pre @ m)) (drop (length m) rest) (m = [])))"
      with "1.hyps"(2) [OF Some prev_of_append [symmetric, of pre m]]
      show ?thesis by (simp only: whole)
    qed
  next
    case None
    show ?thesis
    proof (cases rest)
      case Nil
      with None "1.prems" show ?thesis by (simp add: scan_Nil)
    next
      case (Cons c cs)
      have sc: "scan alts (prev_of pre) rest adv =
          Keep c # scan alts (prev_of (pre @ [c])) cs False"
        using None Cons by (simp add: scan_Keep prev_of_snoc)
      from "1.prems" have "(i, k) \<in> set (spans (length (pre @ [c]))
                                          (scan alts (prev_of (pre @ [c])) cs False))"
        by (simp add: sc)
      with "1.hyps"(1) [OF None Cons prev_of_snoc [symmetric]]
      show ?thesis by (simp add: Cons)
    qed
  qed
qed

subsection \<open>Keys that are words\<close>











section \<open>The claims\<close>

subsection \<open>Dictionaries of the environment\<close>

lemma dict_update_keys: "fst ` set (dict_update d other) = fst ` set d \<union> fst ` set other"
  unfolding dict_update_def
proof (induction other arbitrary: d)
  case Nil
  show ?case by simp
next
  case (Cons p other)
  obtain k v where p: "p = (k, v)" by (cases p)
  have "fst ` set (fold (\<lambda>(k, v). AList.update k v) other (AList.update k v d)) =
      fst ` set (AList.update k v d) \<union> fst ` set other" by (rule Cons.IH)
  then show ?case by (simp add: p AList.dom_update)
qed

lemma dict_update_distinct: "distinct (map fst d) \<Longrightarrow> distinct (map fst (dict_update d other))"
  unfolding dict_update_def
  by (induction other arbitrary: d) (simp_all add: AList.distinct_update case_prod_beta)

lemma dict_update_other:
  "k \<notin> fst ` set other \<Longrightarrow> map_of (dict_update d other) k = map_of d k"
  unfolding dict_update_def
  by (induction other arbitrary: d) (simp_all add: AList.update_conv' case_prod_beta)

lemma safe_env_builtins: "map_of (safe_env math_dict) ''__builtins__'' = Some PNone"
proof -
  have "''__builtins__'' \<notin> fst ` set (allowed_names math_dict)"
    by (auto simp: allowed_names_def dict_update_keys starts_with_def)
  then show ?thesis by (simp add: safe_env_def dict_update_other)
qed

subsection \<open>The frame of \<open>restricted_eval\<close>\<close>

lemma restricted_eval_shape:
  "\<exists>r out'. restricted_eval ev math_dict expression variables out = (r, variables, out')"
  by (simp add: restricted_eval_def split: sum.splits eval_result.splits)

lemma width_not_scale:
  "surface_name @ ''_width'' \<noteq> ''x_scale''" "surface_name @ ''_width'' \<noteq> ''y_scale''"
  "surface_name @ ''_height'' \<noteq> ''x_scale''" "surface_name @ ''_height'' \<noteq> ''y_scale''"
proof -
  have l: "last s \<noteq> last t \<Longrightarrow> s \<noteq> t" for s t :: string by auto
  show "surface_name @ ''_width'' \<noteq> ''x_scale''" by (rule l) simp
  show "surface_name @ ''_width'' \<noteq> ''y_scale''" by (rule l) simp
  show "surface_name @ ''_height'' \<noteq> ''x_scale''" by (rule l) simp
  show "surface_name @ ''_height'' \<noteq> ''y_scale''" by (rule l) simp
qed

subsection \<open>C1\<close>




subsection \<open>C2\<close>



subsection \<open>C3\<close>

text \<open>
  C3: the two scale expressions are evaluated first, x before y, against the mapping of
  \<open>name_width\<close> and \<open>name_height\<close> alone; the mapping then gets \<open>x_scale\<close> and \<open>y_scale\<close>,
  bound to the two results; the two position expressions are evaluated after that, x
  before y, against the four entries. The first evaluation that fails ends the call.
\<close>

theorem scale_before_position:
  "get_scale_and_position_as_function_of_pygame_surface_dimensions ev math_dict surface
       x_pos_function y_pos_function x_scale_function y_scale_function surface_name out =
     (let v0 = [(surface_name @ ''_width'', PInt (get_width surface)),
                (surface_name @ ''_height'', PInt (get_height surface))]
      in case restricted_eval ev math_dict x_scale_function v0 out of
           (Inl e, _, out1) \<Rightarrow> (Inl e, out1)
         | (Inr x_scale, _, out1) \<Rightarrow>
            (case restricted_eval ev math_dict y_scale_function v0 out1 of
               (Inl e, _, out2) \<Rightarrow> (Inl e, out2)
             | (Inr y_scale, _, out2) \<Rightarrow>
                (let v1 = v0 @ [(''x_scale'', x_scale), (''y_scale'', y_scale)]
                 in case restricted_eval ev math_dict x_pos_function v1 out2 of
                      (Inl e, _, out3) \<Rightarrow> (Inl e, out3)
                    | (Inr x, _, out3) \<Rightarrow>
                       (case restricted_eval ev math_dict y_pos_function v1 out3 of
                          (Inl e, _, out4) \<Rightarrow> (Inl e, out4)
                        | (Inr y, _, out4) \<Rightarrow> (Inr (x, y, x_scale, y_scale), out4)))))"
proof -
  let ?v0 = "[(surface_name @ ''_width'', PInt (get_width surface)),
              (surface_name @ ''_height'', PInt (get_height surface))]"
  note d = get_scale_and_position_as_function_of_pygame_surface_dimensions_def Let_def
  have u0: "AList.update (surface_name @ ''_height'') (PInt (get_height surface))
              [(surface_name @ ''_width'', PInt (get_width surface))] = ?v0"
    by simp
  have u1: "AList.update ''y_scale'' sy (AList.update ''x_scale'' sx ?v0) =
      ?v0 @ [(''x_scale'', sx), (''y_scale'', sy)]" for sx sy
    by (simp add: width_not_scale)
  obtain r1 o1 where e1: "restricted_eval ev math_dict x_scale_function ?v0 out = (r1, ?v0, o1)"
    using restricted_eval_shape by blast
  show ?thesis
  proof (cases r1)
    case (Inl e)
    then show ?thesis by (simp only: d u0 e1 prod.case sum.case)
  next
    case sx: (Inr x_scale)
    obtain r2 o2 where e2: "restricted_eval ev math_dict y_scale_function ?v0 o1 = (r2, ?v0, o2)"
      using restricted_eval_shape by blast
    show ?thesis
    proof (cases r2)
      case (Inl e)
      then show ?thesis by (simp only: d u0 e1 e2 sx prod.case sum.case)
    next
      case sy: (Inr y_scale)
      let ?v1 = "?v0 @ [(''x_scale'', x_scale), (''y_scale'', y_scale)]"
      obtain r3 o3 where e3: "restricted_eval ev math_dict x_pos_function ?v1 o2 = (r3, ?v1, o3)"
        using restricted_eval_shape by blast
      show ?thesis
      proof (cases r3)
        case (Inl e)
        then show ?thesis by (simp only: d u0 u1 e1 e2 e3 sx sy prod.case sum.case)
      next
        case x: (Inr x)
        obtain r4 o4 where e4: "restricted_eval ev math_dict y_pos_function ?v1 o3 = (r4, ?v1, o4)"
          using restricted_eval_shape by blast
        show ?thesis
          by (cases r4) (simp_all only: d u0 u1 e1 e2 e3 e4 sx sy x prod.case sum.case)
      qed
    qed
  qed
qed

text \<open>
  The call of the claim: with \<open>surface_width/100\<close> for the x scale of a surface 800 wide,
  the x position \<open>x_scale*10\<close> is computed from the scale \<open>8.0\<close>.
\<close>

theorem scale_before_position_witness:
  "get_scale_and_position_as_function_of_pygame_surface_dimensions py_eval math_dict_sample
       \<lparr>get_width = 800, get_height = 600\<rparr>
       ''x_scale*10'' ''surface_height/2'' ''surface_width/100'' ''1'' ''surface'' [] =
     (Inr (PFloat 80, PFloat 300, PFloat 8, PInt 1), [])"
proof -
  let ?v0 = "[(''surface_width'', PInt 800), (''surface_height'', PInt 600)]"
  let ?v1 = "[(''surface_width'', PInt 800), (''surface_height'', PInt 600),
              (''x_scale'', PFloat 8), (''y_scale'', PInt 1)]"
  have a: "restricted_eval py_eval math_dict_sample ''surface_width/100'' ?v0 [] =
      (Inr (PFloat 8), ?v0, [])" by code_simp
  have b: "restricted_eval py_eval math_dict_sample ''1'' ?v0 [] = (Inr (PInt 1), ?v0, [])"
    by code_simp
  have c: "restricted_eval py_eval math_dict_sample ''x_scale*10'' ?v1 [] =
      (Inr (PFloat 80), ?v1, [])" by code_simp
  have d: "restricted_eval py_eval math_dict_sample ''surface_height/2'' ?v1 [] =
      (Inr (PFloat 300), ?v1, [])" by code_simp
  show ?thesis
    by (simp add: scale_before_position a b c d)
qed

subsection \<open>C4\<close>

text \<open>
  C4: for a surface 800 wide and 600 high, the positions \<open>surface_width/2\<close> and
  \<open>surface_height/2\<close> and the scales \<open>1\<close> and \<open>1\<close> give \<open>(400.0, 300.0, 1, 1)\<close>: x, y,
  x scale, y scale, the positions floats and the scales integers. Nothing is printed.
\<close>

theorem placement_800_600:
  "get_scale_and_position_as_function_of_pygame_surface_dimensions py_eval math_dict
       \<lparr>get_width = 800, get_height = 600\<rparr>
       ''surface_width/2'' ''surface_height/2'' ''1'' ''1'' ''surface'' out =
     (Inr (PFloat 400, PFloat 300, PInt 1, PInt 1), out)"
  by code_simp

subsection \<open>C5\<close>

text \<open>
  C5 says that \<open>restricted_eval("__import__('os')", {})\<close> prints the diagnostic and exits,
  as the docstring promises for every invalid expression. It does not: the mapping is
  empty, the pattern matches the empty string in front of \<open>__import__\<close>, and the callback
  raises \<open>KeyError\<close> for the key \<open>''\<close> before \<open>eval\<close> is reached. Nothing is printed.
\<close>

theorem import_os_empty_mapping:
  "restricted_eval ev math_dict (''__import__('' @ [CHR 0x27] @ ''os'' @ [CHR 0x27] @ '')'') [] out =
     (Inl (KeyError []), [], out)"
  by code_simp

subsection \<open>C6\<close>

text \<open>
  C6: every occurrence that the substitution replaces is a whole-word occurrence of a
  variable name: the text at the match is one of the alternatives of the pattern, and
  there is a word boundary where it starts and where it ends. So a name inside a longer
  identifier, with a word character next to it, is never replaced.
\<close>

theorem matches_are_whole_words:
  assumes "(i, k) \<in> set (matches keys expression)"
  shows "k \<in> set (alternatives keys) \<and> i + length k \<le> length expression \<and>
         take (length k) (drop i expression) = k \<and>
         word_boundary expression i \<and> word_boundary expression (i + length k)"
proof -
  have "(i, k) \<in> set (spans (length ([] :: string))
                        (scan (alternatives keys) (prev_of []) expression False))"
    using assms by (simp add: matches_def prev_of_def)
  from spans_scan [OF this] show ?thesis by simp
qed

text \<open>
  In \<open>ax+x\<close> the variable \<open>x\<close> is replaced at index 3 and not at index 1, inside \<open>ax\<close>.
\<close>

theorem matches_are_whole_words_witness:
  "(3, ''x'') \<in> set (matches [''x''] ''ax+x'') \<and>
   (1, ''x'') \<notin> set (matches [''x''] ''ax+x'') \<and>
   word_boundary ''ax+x'' 3 \<and> word_boundary ''ax+x'' (3 + length ''x'') \<and>
   \<not> word_boundary ''ax+x'' 1 \<and>
   pattern_sub [''x''] (replace_var [(''x'', PInt 7)]) ''ax+x'' = Inr ''ax+7''"
proof -
  have h: "(3, ''x'') \<in> set (matches [''x''] ''ax+x'')" by code_simp
  have n: "(1, ''x'') \<notin> set (matches [''x''] ''ax+x'')" by code_simp
  have b: "\<not> word_boundary ''ax+x'' 1" by code_simp
  have s: "pattern_sub [''x''] (replace_var [(''x'', PInt 7)]) ''ax+x'' = Inr ''ax+7''"
    by code_simp
  from matches_are_whole_words [OF h]
  have "word_boundary ''ax+x'' 3" and "word_boundary ''ax+x'' (3 + length ''x'')"
    by blast+
  with h n b s show ?thesis by (intro conjI)
qed

subsection \<open>C7\<close>

text \<open>
  C7, as the specification states it: the expression can reach \<open>abs\<close>, \<open>round\<close>, \<open>min\<close>,
  \<open>max\<close> and the public names of the math module, and no other name. This fails: the
  environment also holds the name \<open>__builtins__\<close>, bound to \<open>None\<close>, and the expression
  \<open>__builtins__\<close> evaluates to it.
\<close>

theorem builtins_name_counterexample:
  "map_of (safe_env math_dict_sample) ''__builtins__'' = Some PNone \<and>
   restricted_eval py_eval math_dict_sample ''__builtins__'' [(''a'', PInt 1)] [] =
     (Inr PNone, [(''a'', PInt 1)], [])"
  by code_simp

text \<open>
  C7, amended: the names of the evaluation environment are exactly \<open>__builtins__\<close>, bound
  to \<open>None\<close>, \<open>abs\<close>, \<open>round\<close>, \<open>min\<close>, \<open>max\<close>, and the names of \<open>math.__dict__\<close> that do not
  start with two underscores.
\<close>

theorem safe_env_names:
  "set (map fst (safe_env math_dict)) =
     {''__builtins__'', ''abs'', ''round'', ''min'', ''max''} \<union>
     {k \<in> set (map fst math_dict). \<not> starts_with ''__'' k} \<and>
   distinct (map fst (safe_env math_dict)) \<and>
   map_of (safe_env math_dict) ''__builtins__'' = Some PNone"
proof -
  have f: "fst ` set (filter (\<lambda>(k, v). \<not> starts_with ''__'' k) math_dict) =
      {k \<in> fst ` set math_dict. \<not> starts_with ''__'' k}"
    by force
  have keys: "fst ` set (safe_env math_dict) =
      {''__builtins__'', ''abs'', ''round'', ''min'', ''max''} \<union>
      {k \<in> fst ` set math_dict. \<not> starts_with ''__'' k}"
    unfolding safe_env_def allowed_names_def dict_update_keys f by auto
  have "distinct (map fst (allowed_names math_dict))"
    unfolding allowed_names_def by (rule dict_update_distinct) simp
  then have "distinct (map fst (dict_update [(''__builtins__'', PNone)] (allowed_names math_dict)))"
    by (intro dict_update_distinct) simp
  then have d: "distinct (map fst (safe_env math_dict))" by (simp add: safe_env_def)
  show ?thesis using keys d safe_env_builtins by simp
qed

subsection \<open>C8\<close>

text \<open>
  C8: with an empty mapping and an expression that has a word character, the pattern
  matches the empty string at a word boundary, the callback looks the empty key up and
  raises \<open>KeyError\<close>; \<open>eval\<close> is not reached and nothing is printed.
\<close>

theorem empty_mapping_key_error:
  assumes "list_ex is_word_char expression"
  shows "restricted_eval ev math_dict expression [] out = (Inl (KeyError []), [], out)"
proof -
  have r: "replace_var [] [] = Inl (KeyError [])" by (simp add: replace_var_def)
  have nb: "\<not> word_before None" by (simp add: word_before_def)
  have "emit (replace_var []) (scan [[]] None expression False) = Inl (KeyError [])"
    using r nb assms by (rule scan_empty_mapping)
  then show ?thesis
    by (simp add: restricted_eval_def pattern_sub_def alternatives_def)
qed

theorem empty_mapping_key_error_witness:
  "list_ex is_word_char ''(1 + 2)'' \<and>
   restricted_eval py_eval math_dict_sample ''(1 + 2)'' [] [] = (Inl (KeyError []), [], [])"
proof -
  have h: "list_ex is_word_char ''(1 + 2)''" by code_simp
  from h empty_mapping_key_error [OF h, where ev = py_eval and out = "[]"]
  show ?thesis by (intro conjI)
qed

subsection \<open>C9\<close>


subsection \<open>C10\<close>


end
